theory Spec2Isabelle
  imports Complex_Main "HOL-Library.Sublist" "HOL-Library.Multiset"
begin

section \<open>Python values and the operations the pipeline applies to them\<close>

text \<open>
  The pipeline of \<^verbatim>\<open>LLM.py\<close> handles the values that \<^verbatim>\<open>json.load\<close> and
  \<^verbatim>\<open>json.loads\<close> return: \<^verbatim>\<open>None\<close>, booleans, integers, floats, strings, lists
  and dictionaries with string keys. A dictionary is an association list in insertion
  order. A float is represented by the number it denotes (NaN and the infinities are not
  represented). A character is a code point below 256.
\<close>

datatype json =
    JNull
  | JBool bool
  | JInt int
  | JFloat real
  | JStr string
  | JArr "json list"
  | JObj "(string \<times> json) list"

text \<open>The exceptions that the code can raise, by their Python class.\<close>

datatype pyerror =
    KeyError
  | TypeError
  | AttributeError
  | JSONDecodeError
  | OSError
  | APIError

text \<open>Sequencing of a step that may raise with the rest of the computation.\<close>

definition and_then :: "pyerror + 'a \<Rightarrow> ('a \<Rightarrow> pyerror + 'b) \<Rightarrow> pyerror + 'b" where
  "and_then r f = (case r of Inl e \<Rightarrow> Inl e | Inr v \<Rightarrow> f v)"

text \<open>\<^verbatim>\<open>a in b\<close> on two strings: \<open>a\<close> occurs in \<open>b\<close> as a contiguous piece.\<close>

fun str_contains :: "string \<Rightarrow> string \<Rightarrow> bool" where
  "str_contains [] a = (a = [])"
| "str_contains (c # cs) a = (prefix a (c # cs) \<or> str_contains cs a)"

text \<open>
  \<^verbatim>\<open>x == y\<close> on JSON values: \<^verbatim>\<open>bool\<close> is a subclass of \<^verbatim>\<open>int\<close>, numbers compare
  by value, lists elementwise, dictionaries by their items whatever the order.
\<close>

fun num_value :: "json \<Rightarrow> real option" where
  "num_value (JBool b) = Some (if b then 1 else 0)"
| "num_value (JInt i) = Some (of_int i)"
| "num_value (JFloat r) = Some r"
| "num_value _ = None"

fun py_eq :: "json \<Rightarrow> json \<Rightarrow> bool"
  and py_eq_list :: "json list \<Rightarrow> json list \<Rightarrow> bool"
  and py_eq_items :: "(string \<times> json) list \<Rightarrow> (string \<times> json) list \<Rightarrow> bool"
  and py_eq_item :: "json \<Rightarrow> string \<Rightarrow> (string \<times> json) list \<Rightarrow> bool" where
  "py_eq (JStr s) y = (case y of JStr t \<Rightarrow> s = t | _ \<Rightarrow> False)"
| "py_eq JNull y = (case y of JNull \<Rightarrow> True | _ \<Rightarrow> False)"
| "py_eq (JBool b) y = (num_value y = Some (if b then 1 else 0))"
| "py_eq (JInt i) y = (num_value y = Some (of_int i))"
| "py_eq (JFloat r) y = (num_value y = Some r)"
| "py_eq (JArr xs) y = (case y of JArr ys \<Rightarrow> py_eq_list xs ys | _ \<Rightarrow> False)"
| "py_eq (JObj kvs) y =
     (case y of JObj kws \<Rightarrow> length kvs = length kws \<and> py_eq_items kvs kws | _ \<Rightarrow> False)"
| "py_eq_list [] ys = (ys = [])"
| "py_eq_list (x # xs) ys =
     (case ys of [] \<Rightarrow> False | y # ys' \<Rightarrow> py_eq x y \<and> py_eq_list xs ys')"
| "py_eq_items [] kws = True"
| "py_eq_items ((k, v) # kvs) kws = (py_eq_item v k kws \<and> py_eq_items kvs kws)"
| "py_eq_item v k [] = False"
| "py_eq_item v k ((k', w) # kws) = (if k = k' then py_eq v w else py_eq_item v k kws)"

text \<open>Lists and dictionaries are unhashable; every other JSON value can be a key.\<close>

fun py_hashable :: "json \<Rightarrow> bool" where
  "py_hashable (JArr _) = False"
| "py_hashable (JObj _) = False"
| "py_hashable _ = True"

text \<open>
  \<^verbatim>\<open>x in c\<close>: substring test on a string (the left operand must be a string), membership
  by \<^verbatim>\<open>==\<close> in a list, key membership in a dictionary (the left operand is hashed);
  any other right operand is not iterable.
\<close>

fun py_contains :: "json \<Rightarrow> json \<Rightarrow> pyerror + bool" where
  "py_contains x (JStr s) = (case x of JStr a \<Rightarrow> Inr (str_contains s a) | _ \<Rightarrow> Inl TypeError)"
| "py_contains x (JArr ys) = Inr (list_ex (py_eq x) ys)"
| "py_contains x (JObj kvs) =
     (if py_hashable x
      then Inr (case x of JStr k \<Rightarrow> k \<in> set (map fst kvs) | _ \<Rightarrow> False)
      else Inl TypeError)"
| "py_contains x _ = Inl TypeError"

text \<open>\<^verbatim>\<open>c[k]\<close> with a string \<open>k\<close>: only a dictionary can be indexed by a string.\<close>

fun py_getitem :: "json \<Rightarrow> string \<Rightarrow> pyerror + json" where
  "py_getitem (JObj kvs) k = (case map_of kvs k of None \<Rightarrow> Inl KeyError | Some v \<Rightarrow> Inr v)"
| "py_getitem _ k = Inl TypeError"

text \<open>\<^verbatim>\<open>c.get(k, d)\<close>: a method of dictionaries only.\<close>

fun py_get :: "json \<Rightarrow> string \<Rightarrow> json \<Rightarrow> pyerror + json" where
  "py_get (JObj kvs) k d = (case map_of kvs k of None \<Rightarrow> Inr d | Some v \<Rightarrow> Inr v)"
| "py_get _ k d = Inl AttributeError"

text \<open>
  \<^verbatim>\<open>for x in c\<close>: the elements of a list, the one-character strings of a string, the keys
  of a dictionary.
\<close>

fun py_iter :: "json \<Rightarrow> pyerror + json list" where
  "py_iter (JArr xs) = Inr xs"
| "py_iter (JStr s) = Inr (map (\<lambda>c. JStr [c]) s)"
| "py_iter (JObj kvs) = Inr (map (\<lambda>kv. JStr (fst kv)) kvs)"
| "py_iter _ = Inl TypeError"

text \<open>
  \<^verbatim>\<open>d[k] = v\<close> on a dictionary: an existing key keeps its position, a new key goes last.
\<close>

fun dict_set :: "('k \<times> 'v) list \<Rightarrow> 'k \<Rightarrow> 'v \<Rightarrow> ('k \<times> 'v) list" where
  "dict_set [] k v = [(k, v)]"
| "dict_set ((k', v') # kvs) k v =
     (if k' = k then (k, v) # kvs else (k', v') # dict_set kvs k v)"

section \<open>The corpus loader\<close>

text \<open>
  \<^verbatim>\<open>get_table_clusters\<close> reads the files that \<^verbatim>\<open>glob.glob\<close> returns. Its input here
  is that list of paths, each with what \<^verbatim>\<open>open\<close> and \<^verbatim>\<open>json.load\<close> do on it: the
  file cannot be read, its text is not JSON, or it holds a JSON value.
\<close>

datatype file_read = Unreadable | Undecodable | Loaded json

text \<open>The corpus: file name to the list of its tables, in insertion order.\<close>

type_synonym corpus = "(string \<times> json list) list"

text \<open>\<^verbatim>\<open>os.path.basename\<close>: what follows the last slash.\<close>

definition basename :: "string \<Rightarrow> string" where
  "basename p = rev (takeWhile (\<lambda>c. c \<noteq> CHR ''/'') (rev p))"

text \<open>
  The body of the loop over the elements of a file's list (lines 22 to 29): an element
  with \<^verbatim>\<open>'table_name' in table\<close> gives a dictionary of three entries.
\<close>

definition table_entry :: "json \<Rightarrow> pyerror + json option" where
  "table_entry table =
     and_then (py_contains (JStr ''table_name'') table) (\<lambda>has_name.
       if has_name then
         and_then (py_getitem table ''table_name'') (\<lambda>name.
         and_then (py_get table ''table_description'' (JStr '''')) (\<lambda>description.
         and_then (py_get table ''columns'' (JArr [])) (\<lambda>cols.
           Inr (Some (JObj [(''table_name'', name),
                            (''table_description'', description),
                            (''columns'', cols)])))))
       else Inr None)"

fun load_tables :: "json list \<Rightarrow> pyerror + json list" where
  "load_tables [] = Inr []"
| "load_tables (table # rest) =
     and_then (table_entry table) (\<lambda>entry.
     and_then (load_tables rest) (\<lambda>infos.
       Inr (case entry of None \<Rightarrow> infos | Some info \<Rightarrow> info # infos)))"

text \<open>
  Lines 20 to 29 for one loaded value: the list of the file starts empty and is filled
  only when the value is a list.
\<close>

fun file_tables :: "json \<Rightarrow> pyerror + json list" where
  "file_tables (JArr elements) = load_tables elements"
| "file_tables _ = Inr []"

text \<open>
  The loop over the files (lines 15 to 29), from the dictionary built so far. An
  exception leaves the function, so the dictionary is returned only when every file
  went through.
\<close>

fun get_table_clusters_from :: "corpus \<Rightarrow> (string \<times> file_read) list \<Rightarrow> pyerror + corpus" where
  "get_table_clusters_from file_structure [] = Inr file_structure"
| "get_table_clusters_from file_structure ((json_file, content) # rest) =
     (case content of
        Unreadable \<Rightarrow> Inl OSError
      | Undecodable \<Rightarrow> Inl JSONDecodeError
      | Loaded data \<Rightarrow>
          and_then (file_tables data) (\<lambda>infos.
            get_table_clusters_from (dict_set file_structure (basename json_file) infos) rest))"

definition get_table_clusters :: "(string \<times> file_read) list \<Rightarrow> pyerror + corpus" where
  "get_table_clusters json_files = get_table_clusters_from [] json_files"

section \<open>The table extractor and the table info gatherer\<close>

text \<open>
  \<^verbatim>\<open>file_name in data\<close> and \<^verbatim>\<open>data[file_name]\<close> on the corpus, a dictionary whose
  keys are strings: the operand is hashed first.
\<close>

definition corpus_contains :: "corpus \<Rightarrow> json \<Rightarrow> pyerror + bool" where
  "corpus_contains data x =
     (if py_hashable x
      then Inr (case x of JStr k \<Rightarrow> k \<in> set (map fst data) | _ \<Rightarrow> False)
      else Inl TypeError)"

definition corpus_getitem :: "corpus \<Rightarrow> json \<Rightarrow> pyerror + json list" where
  "corpus_getitem data x =
     (if py_hashable x
      then (case x of
              JStr k \<Rightarrow> (case map_of data k of None \<Rightarrow> Inl KeyError | Some tables \<Rightarrow> Inr tables)
            | _ \<Rightarrow> Inl KeyError)
      else Inl TypeError)"

text \<open>
  A value inside an f-string is formatted by \<^verbatim>\<open>str\<close>: a string stands for itself; the
  text of any other value is left to the parameter \<open>repr\<close>.
\<close>

definition py_str :: "(json \<Rightarrow> string) \<Rightarrow> json \<Rightarrow> string" where
  "py_str repr v = (case v of JStr s \<Rightarrow> s | _ \<Rightarrow> repr v)"

text \<open>Line 79: \<^verbatim>\<open>f"{table['table_name']} : {table['table_description']}"\<close>.\<close>

definition table_string :: "(json \<Rightarrow> string) \<Rightarrow> json \<Rightarrow> pyerror + string" where
  "table_string repr table =
     and_then (py_getitem table ''table_name'') (\<lambda>name.
     and_then (py_getitem table ''table_description'') (\<lambda>description.
       Inr (py_str repr name @ '' : '' @ py_str repr description)))"

fun table_strings :: "(json \<Rightarrow> string) \<Rightarrow> json list \<Rightarrow> pyerror + string list" where
  "table_strings repr [] = Inr []"
| "table_strings repr (table # rest) =
     and_then (table_string repr table) (\<lambda>combined_str.
     and_then (table_strings repr rest) (\<lambda>strs. Inr (combined_str # strs)))"

fun tables_of_files :: "(json \<Rightarrow> string) \<Rightarrow> corpus \<Rightarrow> json list \<Rightarrow> pyerror + string list" where
  "tables_of_files repr data [] = Inr []"
| "tables_of_files repr data (file_name # rest) =
     and_then (corpus_contains data file_name) (\<lambda>present.
     and_then (if present
               then and_then (corpus_getitem data file_name) (table_strings repr)
               else Inr []) (\<lambda>strs.
     and_then (tables_of_files repr data rest) (\<lambda>more. Inr (strs @ more))))"

definition get_tables_from_files ::
  "(json \<Rightarrow> string) \<Rightarrow> json \<Rightarrow> corpus \<Rightarrow> pyerror + string list" where
  "get_tables_from_files repr file_names data =
     and_then (py_iter file_names) (tables_of_files repr data)"

text \<open>
  Line 122: \<^verbatim>\<open>any(table_name in rt for rt in relevant_tables)\<close>. The generator takes
  the iterator of \<^verbatim>\<open>relevant_tables\<close> at once; \<^verbatim>\<open>any\<close> stops at the first true test.
\<close>

fun any_contains :: "json \<Rightarrow> json list \<Rightarrow> pyerror + bool" where
  "any_contains table_name [] = Inr False"
| "any_contains table_name (rt # rest) =
     and_then (py_contains table_name rt) (\<lambda>found.
       if found then Inr True else any_contains table_name rest)"

definition table_info_entry :: "json \<Rightarrow> json \<Rightarrow> pyerror + json option" where
  "table_info_entry relevant_tables table =
     and_then (py_getitem table ''table_name'') (\<lambda>table_name.
     and_then (and_then (py_iter relevant_tables) (any_contains table_name)) (\<lambda>relevant.
       if relevant then
         and_then (py_getitem table ''table_description'') (\<lambda>description.
         and_then (py_getitem table ''columns'') (\<lambda>cols.
           Inr (Some (JObj [(''table_name'', table_name),
                            (''table_description'', description),
                            (''columns'', cols)]))))
       else Inr None))"

fun table_infos :: "json \<Rightarrow> json list \<Rightarrow> pyerror + json list" where
  "table_infos relevant_tables [] = Inr []"
| "table_infos relevant_tables (table # rest) =
     and_then (table_info_entry relevant_tables table) (\<lambda>entry.
     and_then (table_infos relevant_tables rest) (\<lambda>infos.
       Inr (case entry of None \<Rightarrow> infos | Some info \<Rightarrow> info # infos)))"

fun infos_of_files :: "json \<Rightarrow> corpus \<Rightarrow> json list \<Rightarrow> pyerror + json list" where
  "infos_of_files relevant_tables data [] = Inr []"
| "infos_of_files relevant_tables data (file_name # rest) =
     and_then (corpus_contains data file_name) (\<lambda>present.
     and_then (if present
               then and_then (corpus_getitem data file_name) (table_infos relevant_tables)
               else Inr []) (\<lambda>infos.
     and_then (infos_of_files relevant_tables data rest) (\<lambda>more. Inr (infos @ more))))"

definition grab_table_info :: "json \<Rightarrow> json \<Rightarrow> corpus \<Rightarrow> pyerror + json list" where
  "grab_table_info relevant_tables file_names data =
     and_then (py_iter file_names) (infos_of_files relevant_tables data)"

section \<open>Cleaning and parsing a response\<close>

text \<open>
  \<^verbatim>\<open>s.replace(old, new)\<close>: the occurrences of \<open>old\<close> are found from the left and do
  not overlap. With an empty \<open>old\<close>, \<open>new\<close> goes before every character and at the end.
\<close>

function py_replace :: "string \<Rightarrow> string \<Rightarrow> string \<Rightarrow> string" where
  "py_replace old new [] = (if old = [] then new else [])"
| "py_replace old new (c # cs) =
     (if old = [] then new @ c # py_replace old new cs
      else if prefix old (c # cs) then new @ py_replace old new (drop (length old) (c # cs))
      else c # py_replace old new cs)"
  by pat_completeness auto
termination
  by (relation "measure (\<lambda>(old, new, s). length s)") auto

text \<open>\<^verbatim>\<open>str.isspace\<close> on the code points below 256, and \<^verbatim>\<open>s.strip()\<close>.\<close>

definition py_isspace :: "char \<Rightarrow> bool" where
  "py_isspace c =
     ((of_char c :: nat) \<in> {9, 10, 11, 12, 13, 28, 29, 30, 31, 32, 133, 160})"

definition py_strip :: "string \<Rightarrow> string" where
  "py_strip s = rev (dropWhile py_isspace (rev (dropWhile py_isspace s)))"

text \<open>Lines 66 and 107: \<^verbatim>\<open>response_text.replace('```json', '').replace('```', '').strip()\<close>.\<close>

definition clean_response :: "string \<Rightarrow> string" where
  "clean_response response_text =
     py_strip (py_replace ''```'' [] (py_replace ''```json'' [] response_text))"

text \<open>
  Lines 66 to 71 and 107 to 112: the cleaned text goes to \<^verbatim>\<open>json.loads\<close>, here the
  parameter \<open>loads\<close> (\<open>None\<close> when the text is not JSON), and the result is indexed by
  the key of the stage.
\<close>

definition parse_selection :: "(string \<Rightarrow> json option) \<Rightarrow> string \<Rightarrow> string \<Rightarrow> pyerror + json" where
  "parse_selection loads key response_text =
     (case loads (clean_response response_text) of
        None \<Rightarrow> Inl JSONDecodeError
      | Some response_json \<Rightarrow> py_getitem response_json key)"

section \<open>The stages that call the predictor\<close>

text \<open>
  A request is the model name and one message, a fixed template around the values of
  the stage; the request keeps those values. The client answers a request with a text or
  raises; its answer may depend on the requests it has received before. Every call is
  recorded in the log of requests, the state that the stages pass on. What the stages
  print is left out.
\<close>

datatype request =
    RelevantFilesRequest "string list" string
  | RelevantTablesRequest "string list" string
  | GenerateSqlRequest json string "json list"

fun model_of :: "request \<Rightarrow> string" where
  "model_of (RelevantFilesRequest _ _) = ''gpt-4o-mini''"
| "model_of (RelevantTablesRequest _ _) = ''gpt-4o''"
| "model_of (GenerateSqlRequest _ _ _) = ''gpt-4o''"

type_synonym client = "request list \<Rightarrow> request \<Rightarrow> pyerror + string"

text \<open>
  Line 36: \<^verbatim>\<open>OpenAI(api_key=api_key)\<close>; the constructor of the library is the parameter
  \<open>openai\<close>, from the key to the client.
\<close>

definition create_openai_client :: "(string \<Rightarrow> client) \<Rightarrow> string \<Rightarrow> client" where
  "create_openai_client openai api_key = openai api_key"

definition chat :: "client \<Rightarrow> request \<Rightarrow> request list \<Rightarrow> (pyerror + string) \<times> request list" where
  "chat client req sent = (client sent req, sent @ [req])"

definition get_relevant_files ::
  "(string \<Rightarrow> json option) \<Rightarrow> client \<Rightarrow> string list \<Rightarrow> string \<Rightarrow> request list
     \<Rightarrow> (pyerror + json) \<times> request list" where
  "get_relevant_files loads client file_names prompt sent =
     (case chat client (RelevantFilesRequest file_names prompt) sent of
        (response, sent') \<Rightarrow>
          (and_then response (parse_selection loads ''relevant_files''), sent'))"

definition pick_relevant_tables ::
  "(string \<Rightarrow> json option) \<Rightarrow> client \<Rightarrow> string list \<Rightarrow> string \<Rightarrow> request list
     \<Rightarrow> (pyerror + json) \<times> request list" where
  "pick_relevant_tables loads client tables prompt sent =
     (case chat client (RelevantTablesRequest tables prompt) sent of
        (response, sent') \<Rightarrow>
          (and_then response (parse_selection loads ''relevant_tables''), sent'))"

definition generate_sql ::
  "client \<Rightarrow> json \<Rightarrow> string \<Rightarrow> json list \<Rightarrow> request list
     \<Rightarrow> (pyerror + string) \<times> request list" where
  "generate_sql client relevant_tables prompt cols sent =
     chat client (GenerateSqlRequest relevant_tables prompt cols) sent"

section \<open>The orchestrator\<close>

record result_bundle =
  all_data :: corpus
  file_names :: "string list"
  relevant_files :: json
  tables :: "string list"
  relevant_tables :: json
  columns_info :: "json list"
  final_sql_query :: string

text \<open>
  \<^verbatim>\<open>run_full_process\<close>: the result or the exception, with the log of the requests made.
\<close>

definition run_full_process ::
  "(string \<times> file_read) list \<Rightarrow> (string \<Rightarrow> json option) \<Rightarrow> (json \<Rightarrow> string) \<Rightarrow> (string \<Rightarrow> client)
     \<Rightarrow> string \<Rightarrow> string \<Rightarrow> (pyerror + result_bundle) \<times> request list" where
  "run_full_process json_files loads repr openai api_key user_prompt =
     (case get_table_clusters json_files of
        Inl e \<Rightarrow> (Inl e, [])
      | Inr data \<Rightarrow>
          let client = create_openai_client openai api_key;
              names = map fst data
          in (case get_relevant_files loads client names user_prompt [] of
                (Inl e, sent2) \<Rightarrow> (Inl e, sent2)
              | (Inr files, sent2) \<Rightarrow>
          (case get_tables_from_files repr files data of
             Inl e \<Rightarrow> (Inl e, sent2)
           | Inr strs \<Rightarrow>
          (case pick_relevant_tables loads client strs user_prompt sent2 of
             (Inl e, sent4) \<Rightarrow> (Inl e, sent4)
           | (Inr rts, sent4) \<Rightarrow>
          (case grab_table_info rts files data of
             Inl e \<Rightarrow> (Inl e, sent4)
           | Inr infos \<Rightarrow>
          (case generate_sql client rts user_prompt infos sent4 of
             (Inl e, sent6) \<Rightarrow> (Inl e, sent6)
           | (Inr sql_query, sent6) \<Rightarrow>
               (Inr \<lparr>all_data = data, file_names = names, relevant_files = files,
                     tables = strs, relevant_tables = rts, columns_info = infos,
                     final_sql_query = sql_query\<rparr>, sent6)))))))"

section \<open>The data model of the specification\<close>

text \<open>\<^verbatim>\<open>isinstance(v, list)\<close> and \<^verbatim>\<open>isinstance(v, dict)\<close>.\<close>

fun is_list :: "json \<Rightarrow> bool" where
  "is_list (JArr _) = True"
| "is_list _ = False"

fun is_dict :: "json \<Rightarrow> bool" where
  "is_dict (JObj _) = True"
| "is_dict _ = False"

text \<open>The field \<open>k\<close> of a JSON value: only an object has fields.\<close>

definition field :: "json \<Rightarrow> string \<Rightarrow> json option" where
  "field table k = (case table of JObj kvs \<Rightarrow> map_of kvs k | _ \<Rightarrow> None)"

text \<open>
  The descriptor that the specification asks of the loader for one element of a file:
  none without a \<^verbatim>\<open>table_name\<close> field, and otherwise the three fields, the description
  defaulting to the empty string and the columns to the empty sequence.
\<close>

definition loaded_descriptor :: "json \<Rightarrow> json option" where
  "loaded_descriptor table =
     (case field table ''table_name'' of
        None \<Rightarrow> None
      | Some name \<Rightarrow>
          Some (JObj [(''table_name'', name),
                      (''table_description'',
                         (case field table ''table_description'' of
                            None \<Rightarrow> JStr [] | Some d \<Rightarrow> d)),
                      (''columns'',
                         (case field table ''columns'' of None \<Rightarrow> JArr [] | Some c \<Rightarrow> c))]))"

text \<open>A table that carries the three fields, and a corpus of such tables.\<close>

definition has_fields :: "json \<Rightarrow> bool" where
  "has_fields table =
     (field table ''table_name'' \<noteq> None \<and> field table ''table_description'' \<noteq> None
      \<and> field table ''columns'' \<noteq> None)"

definition complete_corpus :: "corpus \<Rightarrow> bool" where
  "complete_corpus data = list_all (\<lambda>entry. list_all has_fields (snd entry)) data"

text \<open>
  The TableDescriptor and the SchemaCorpus of the specification, with typed fields, and
  the Python values that stand for them.
\<close>

record table_descriptor =
  td_name :: string
  td_description :: string
  td_columns :: json

type_synonym schema_corpus = "(string \<times> table_descriptor list) list"

definition descriptor_json :: "table_descriptor \<Rightarrow> json" where
  "descriptor_json t =
     JObj [(''table_name'', JStr (td_name t)),
           (''table_description'', JStr (td_description t)),
           (''columns'', td_columns t)]"

definition corpus_json :: "schema_corpus \<Rightarrow> corpus" where
  "corpus_json c = map (\<lambda>entry. (fst entry, map descriptor_json (snd entry))) c"

text \<open>The tables of a file in a corpus; none when the corpus has no such file.\<close>

definition tables_in :: "schema_corpus \<Rightarrow> string \<Rightarrow> table_descriptor list" where
  "tables_in c f = (case map_of c f of None \<Rightarrow> [] | Some ts \<Rightarrow> ts)"

text \<open>
  How a selector stage fails on what \<^verbatim>\<open>json.loads\<close> makes of the cleaned response: a
  text that is not JSON, a JSON value that is not an object, an object without the key.
\<close>

definition selection_failure :: "json option \<Rightarrow> string \<Rightarrow> pyerror option" where
  "selection_failure parsed key =
     (case parsed of
        None \<Rightarrow> Some JSONDecodeError
      | Some response_json \<Rightarrow>
          if \<not> is_dict response_json then Some TypeError
          else if field response_json key = None then Some KeyError
          else None)"

text \<open>
  The end-to-end scenario: one file with the table \<^verbatim>\<open>orders\<close>, a predictor that answers
  each stage with a fixed text, and \<^verbatim>\<open>json.loads\<close> on the two texts it has to parse.
\<close>

definition orders_table :: json where
  "orders_table =
     JObj [(''table_name'', JStr ''orders''),
           (''table_description'', JStr ''sales orders''),
           (''columns'', JArr [JStr ''id'', JStr ''amount'', JStr ''date''])]"

definition scenario_files :: "(string \<times> file_read) list" where
  "scenario_files = [(''prospr/a.json'', Loaded (JArr [orders_table]))]"

definition scenario_client :: client where
  "scenario_client sent req =
     (case req of
        RelevantFilesRequest _ _ \<Rightarrow> Inr ''{\"relevant_files\": [\"a.json\"]}''
      | RelevantTablesRequest _ _ \<Rightarrow> Inr ''{\"relevant_tables\": [\"orders\"]}''
      | GenerateSqlRequest _ _ _ \<Rightarrow> Inr ''SELECT * FROM orders;'')"

definition scenario_loads :: "string \<Rightarrow> json option" where
  "scenario_loads s =
     (if s = ''{\"relevant_files\": [\"a.json\"]}''
      then Some (JObj [(''relevant_files'', JArr [JStr ''a.json''])])
      else if s = ''{\"relevant_tables\": [\"orders\"]}''
      then Some (JObj [(''relevant_tables'', JArr [JStr ''orders''])])
      else None)"

text \<open>Two typed tables for the examples.\<close>

definition orders :: table_descriptor where
  "orders = \<lparr>td_name = ''orders'', td_description = ''sales orders'',
             td_columns = JArr [JStr ''id'', JStr ''amount'', JStr ''date'']\<rparr>"

definition customers :: table_descriptor where
  "customers = \<lparr>td_name = ''customers'', td_description = ''buyers'',
                td_columns = JArr [JStr ''id'']\<rparr>"

section \<open>Sequencing\<close>

lemma and_then_Inl [simp]: "and_then (Inl e) f = Inl e"
  by (simp add: and_then_def)

lemma and_then_Inr [simp]: "and_then (Inr v) f = f v"
  by (simp add: and_then_def)

lemma and_then_no_key_error:
  "r \<noteq> Inl KeyError \<Longrightarrow> (\<And>v. r = Inr v \<Longrightarrow> f v \<noteq> Inl KeyError)
   \<Longrightarrow> and_then r f \<noteq> Inl KeyError"
  by (cases r) simp_all

section \<open>The loader\<close>

lemma file_tables_not_list: "\<not> is_list data \<Longrightarrow> file_tables data = Inr []"
  by (cases data) simp_all

lemma table_entry_dict: "is_dict table \<Longrightarrow> table_entry table = Inr (loaded_descriptor table)"
proof (cases table)
  case (JObj kvs)
  show ?thesis
  proof (cases "map_of kvs ''table_name''")
    case None
    then have "''table_name'' \<notin> set (map fst kvs)"
      by (simp add: map_of_eq_None_iff)
    with None JObj show ?thesis
      by (simp add: table_entry_def loaded_descriptor_def field_def)
  next
    case (Some name)
    then have "''table_name'' \<in> set (map fst kvs)"
      by (metis map_of_eq_None_iff option.distinct(1) set_map)
    with Some JObj show ?thesis
      by (simp add: table_entry_def loaded_descriptor_def field_def split: option.splits)
  qed
qed simp_all

lemma load_tables_dicts:
  "list_all is_dict elements \<Longrightarrow>
   load_tables elements = Inr (List.map_filter loaded_descriptor elements)"
  by (induction elements)
     (simp_all add: table_entry_dict List.map_filter_simps split: option.splits)

lemma map_filter_none:
  "list_all (\<lambda>x. f x = None) xs \<Longrightarrow> List.map_filter f xs = []"
  by (induction xs) (simp_all add: List.map_filter_simps)

text \<open>
  C2 (as amended): a file whose top-level JSON value is not a list gets the empty table
  list and the loader goes on with the remaining files; a file whose text is not JSON
  makes the loader raise \<^verbatim>\<open>JSONDecodeError\<close>, whatever files follow.
\<close>

theorem non_list_file_is_empty_and_bad_json_raises:
  "(\<not> is_list data \<longrightarrow>
      get_table_clusters_from file_structure ((json_file, Loaded data) # rest) =
        get_table_clusters_from (dict_set file_structure (basename json_file) []) rest)
   \<and> get_table_clusters_from file_structure ((json_file, Undecodable) # rest)
       = Inl JSONDecodeError"
  by (simp add: file_tables_not_list)

theorem non_list_file_is_empty_witness:
  "\<not> is_list (JObj [(''k'', JInt 1)])
   \<and> get_table_clusters [(''prospr/a.json'', Loaded (JObj [(''k'', JInt 1)])),
                          (''prospr/b.json'', Loaded (JArr []))]
       = Inr [(''a.json'', []), (''b.json'', [])]
   \<and> get_table_clusters [(''prospr/a.json'', Loaded JNull), (''prospr/b.json'', Undecodable)]
       = Inl JSONDecodeError"
  using non_list_file_is_empty_and_bad_json_raises
          [of "JObj [(''k'', JInt 1)]" "[]" "''prospr/a.json''"
              "[(''prospr/b.json'', Loaded (JArr []))]"]
        non_list_file_is_empty_and_bad_json_raises
          [of JNull "[(''a.json'', [])]" "''prospr/b.json''" "[]"]
  by (simp add: get_table_clusters_def basename_def)

theorem undecodable_file_aborts_loader:
  "get_table_clusters [(''prospr/bad.json'', Undecodable)] = Inl JSONDecodeError
   \<and> get_table_clusters [(''prospr/bad.json'', Undecodable)] \<noteq> Inr [(''bad.json'', [])]"
  by (simp add: get_table_clusters_def)

text \<open>
  C5 (as amended): for a JSON array whose elements are all objects, the loader builds a
  descriptor for exactly the elements that carry \<^verbatim>\<open>table_name\<close>, in their order, with
  the empty string for a missing description and the empty sequence for missing
  columns; when no element carries \<^verbatim>\<open>table_name\<close> the table list of the file is empty.
\<close>

theorem loader_keeps_named_objects:
  "list_all is_dict elements \<Longrightarrow>
     file_tables (JArr elements) = Inr (List.map_filter loaded_descriptor elements)
     \<and> get_table_clusters_from file_structure ((json_file, Loaded (JArr elements)) # rest) =
         get_table_clusters_from
           (dict_set file_structure (basename json_file)
              (List.map_filter loaded_descriptor elements)) rest
     \<and> (list_all (\<lambda>table. field table ''table_name'' = None) elements \<longrightarrow>
          file_tables (JArr elements) = Inr [])"
proof -
  assume dicts: "list_all is_dict elements"
  have nameless: "List.map_filter loaded_descriptor elements = []"
    if "list_all (\<lambda>table. field table ''table_name'' = None) elements"
  proof (rule map_filter_none)
    show "list_all (\<lambda>table. loaded_descriptor table = None) elements"
      using that by (simp add: list_all_iff loaded_descriptor_def)
  qed
  show ?thesis
    using nameless by (simp add: load_tables_dicts [OF dicts])
qed

theorem loader_keeps_named_objects_witness:
  "list_all is_dict [JObj [(''table_name'', JStr ''t'')], JObj [(''other'', JInt 1)]]
   \<and> get_table_clusters
        [(''prospr/a.json'',
          Loaded (JArr [JObj [(''table_name'', JStr ''t'')], JObj [(''other'', JInt 1)]])),
         (''prospr/b.json'', Loaded (JArr [JObj [(''other'', JInt 1)]]))]
       = Inr [(''a.json'', [JObj [(''table_name'', JStr ''t''),
                                  (''table_description'', JStr []),
                                  (''columns'', JArr [])]]),
              (''b.json'', [])]"
  using loader_keeps_named_objects
          [of "[JObj [(''table_name'', JStr ''t'')], JObj [(''other'', JInt 1)]]" "[]"
              "''prospr/a.json''" "[(''prospr/b.json'', Loaded (JArr [JObj [(''other'', JInt 1)]]))]"]
  by (simp add: get_table_clusters_def basename_def List.map_filter_simps
      loaded_descriptor_def field_def table_entry_def)

theorem number_element_aborts_loader:
  "get_table_clusters [(''prospr/a.json'', Loaded (JArr [JInt 5]))] = Inl TypeError
   \<and> get_table_clusters [(''prospr/a.json'', Loaded (JArr [JInt 5]))] \<noteq> Inr [(''a.json'', [])]"
  by (simp add: get_table_clusters_def table_entry_def)

section \<open>Cleaning a response\<close>

lemma replace_skip:
  "p \<notin> set s \<Longrightarrow> py_replace (p # ps) [] (s @ t) = s @ py_replace (p # ps) [] t"
  by (induction s) auto

lemma replace_none: "p \<notin> set s \<Longrightarrow> py_replace (p # ps) [] s = s"
  using replace_skip [of p s ps "[]"] by simp

lemma replace_prefix: "pat \<noteq> [] \<Longrightarrow> py_replace pat [] (pat @ t) = py_replace pat [] t"
  by (cases pat) simp_all

lemma replace_step:
  "pat \<noteq> [] \<Longrightarrow> \<not> prefix pat (c # cs) \<Longrightarrow>
   py_replace pat [] (c # cs) = c # py_replace pat [] cs"
  by simp

lemma prefix_last_free:
  assumes "pat \<noteq> []" "last pat \<notin> set t" "prefix pat (u @ t)"
  shows "prefix pat u"
proof (rule ccontr)
  assume "\<not> prefix pat u"
  with assms(3) obtain v where v: "pat = u @ v" "prefix v t" "v \<noteq> []"
    by (metis prefix_append append_Nil2 prefix_def)
  then have "last pat = last v" by simp
  moreover have "last v \<in> set v" using v by simp
  moreover have "set v \<subseteq> set t" using v(2) by (auto simp: prefix_def)
  ultimately show False using assms(2) by auto
qed

lemma replace_last_free_base:
  "pat \<noteq> [] \<Longrightarrow> last pat \<notin> set t \<Longrightarrow> py_replace pat [] t = t"
proof (induction t)
  case Nil
  then show ?case by simp
next
  case (Cons c cs)
  have "\<not> prefix pat (c # cs)"
  proof
    assume "prefix pat (c # cs)"
    then have "set pat \<subseteq> set (c # cs)" by (rule set_mono_prefix)
    then have "last pat \<in> set (c # cs)" using Cons.prems(1) by (meson last_in_set subsetD)
    then show False using Cons.prems(2) by blast
  qed
  then show ?case using Cons by simp
qed

text \<open>
  A tail that lacks the last character of the pattern takes no part in any occurrence.
\<close>

lemma replace_last_free:
  "pat \<noteq> [] \<Longrightarrow> last pat \<notin> set t \<Longrightarrow>
   py_replace pat [] (s @ t) = py_replace pat [] s @ t"
proof (induction s rule: length_induct)
  case (1 s)
  show ?case
  proof (cases "prefix pat s")
    case True
    then obtain s' where s': "s = pat @ s'" by (auto simp: prefix_def)
    then have "length s' < length s" using 1 by simp
    then have "py_replace pat [] (s' @ t) = py_replace pat [] s' @ t" using 1 by blast
    then show ?thesis
      using s' 1 replace_prefix [of pat "s' @ t"] replace_prefix [of pat s'] by simp
  next
    case False
    show ?thesis
    proof (cases s)
      case Nil
      then show ?thesis using 1 by (simp add: replace_last_free_base)
    next
      case (Cons c cs)
      have "\<not> prefix pat ((c # cs) @ t)"
        using prefix_last_free [of pat t "c # cs"] 1 False Cons by blast
      moreover have "py_replace pat [] (cs @ t) = py_replace pat [] cs @ t"
        using 1 Cons by simp
      ultimately show ?thesis using Cons False 1 by simp
    qed
  qed
qed

lemma strip_pad:
  assumes "list_all py_isspace w1" "list_all py_isspace w2"
  shows "py_strip (w1 @ z @ w2) = py_strip z"
proof -
  have a: "dropWhile py_isspace (w1 @ z @ w2) = dropWhile py_isspace (z @ w2)"
    using assms(1) by (simp add: list_all_iff)
  show ?thesis
  proof (cases "list_all py_isspace z")
    case True
    then have "dropWhile py_isspace (z @ w2) = []"
      using assms(2) by (auto simp: list_all_iff)
    moreover have "dropWhile py_isspace z = []"
      using True by (auto simp: list_all_iff)
    ultimately show ?thesis unfolding py_strip_def a by (simp only:)
  next
    case False
    then have "dropWhile py_isspace (z @ w2) = dropWhile py_isspace z @ w2"
      by (auto simp: list_all_iff dropWhile_append1)
    moreover have "dropWhile py_isspace (rev w2 @ rev (dropWhile py_isspace z))
        = dropWhile py_isspace (rev (dropWhile py_isspace z))"
      by (rule dropWhile_append2) (use assms(2) in \<open>auto simp: list_all_iff\<close>)
    ultimately show ?thesis unfolding py_strip_def a by simp
  qed
qed

lemma short_run:
  "x \<noteq> [] \<Longrightarrow> \<not> prefix ''```'' x \<Longrightarrow> prefix ''```'' (x @ t) \<Longrightarrow> x = ''`'' \<or> x = ''``''"
  by (cases x; cases "tl x"; cases "tl (tl x)") auto

text \<open>
  The closing fence after a text: one or two backquotes at the end of the text join the
  fence, and as many are left once the first three of the run are gone.
\<close>

lemma fence_tail:
  "CHR ''`'' \<notin> set w2 \<Longrightarrow> CHR ''`'' \<notin> set w3 \<Longrightarrow>
   py_replace ''```'' [] (x @ w2 @ ''```'' @ w3) = py_replace ''```'' [] x @ w2 @ w3"
proof (induction x rule: length_induct)
  case (1 x)
  have base: "py_replace ''```'' [] (w2 @ ''```'' @ w3) = w2 @ w3"
    using replace_skip [of "CHR ''`''" w2 "''``''" "''```'' @ w3"]
      replace_none [of "CHR ''`''" w3 "''``''"] 1 by simp
  show ?case
  proof (cases "prefix ''```'' x")
    case True
    then obtain x' where x': "x = ''```'' @ x'" by (auto simp: prefix_def)
    then have "py_replace ''```'' [] (x' @ w2 @ ''```'' @ w3) = py_replace ''```'' [] x' @ w2 @ w3"
      using 1 by simp
    then show ?thesis using x' by simp
  next
    case False
    show ?thesis
    proof (cases x)
      case Nil
      then show ?thesis using base by simp
    next
      case (Cons c cs)
      have ih: "py_replace ''```'' [] (cs @ w2 @ ''```'' @ w3) = py_replace ''```'' [] cs @ w2 @ w3"
        using 1 Cons by simp
      show ?thesis
      proof (cases "prefix ''```'' (x @ w2 @ ''```'' @ w3)")
        case straddle: True
        then have xs: "x = ''`'' \<or> x = ''``''"
          using short_run [of x] False Cons by blast
        then have "w2 = []" using straddle 1(2) by (cases w2) auto
        then show ?thesis using xs 1(3) by (cases w3) (auto simp: replace_none)
      next
        case nostraddle: False
        have "py_replace ''```'' [] ((c # cs) @ w2 @ ''```'' @ w3)
            = c # py_replace ''```'' [] (cs @ w2 @ ''```'' @ w3)"
          using replace_step [of "''```''" c "cs @ w2 @ ''```'' @ w3"] nostraddle
          unfolding Cons by (simp del: py_replace.simps)
        moreover have "py_replace ''```'' [] (c # cs) = c # py_replace ''```'' [] cs"
          using replace_step [of "''```''" c cs] False
          unfolding Cons by (simp del: py_replace.simps)
        ultimately show ?thesis using ih unfolding Cons by (simp del: py_replace.simps)
      qed
    qed
  qed
qed

lemma space_free:
  "list_all py_isspace w \<Longrightarrow> CHR ''`'' \<notin> set w \<and> CHR ''n'' \<notin> set w"
  by (auto simp: list_all_iff py_isspace_def)

lemma clean_wrapped:
  assumes "list_all py_isspace w0" "list_all py_isspace w1"
    "list_all py_isspace w2" "list_all py_isspace w3"
  shows "clean_response (w0 @ ''```json'' @ w1 @ body @ w2 @ ''```'' @ w3) = clean_response body"
proof -
  note f0 = space_free [OF assms(1)] and f1 = space_free [OF assms(2)]
    and f2 = space_free [OF assms(3)] and f3 = space_free [OF assms(4)]
  let ?x = "py_replace ''```json'' [] body"
  have "py_replace ''```json'' [] (w0 @ ''```json'' @ w1 @ body @ w2 @ ''```'' @ w3)
      = w0 @ py_replace ''```json'' [] (''```json'' @ w1 @ body @ w2 @ ''```'' @ w3)"
    using replace_skip [of "CHR ''`''" w0 "''``json''"] f0 by simp
  also have "\<dots> = w0 @ py_replace ''```json'' [] (w1 @ body @ w2 @ ''```'' @ w3)"
    using replace_prefix [of "''```json''"] by simp
  also have "\<dots> = w0 @ w1 @ py_replace ''```json'' [] (body @ w2 @ ''```'' @ w3)"
    using replace_skip [of "CHR ''`''" w1 "''``json''"] f1 by simp
  also have "\<dots> = w0 @ w1 @ ?x @ w2 @ ''```'' @ w3"
    using replace_last_free [of "''```json''" "w2 @ ''```'' @ w3" body] f2 f3 by simp
  finally have r1: "py_replace ''```json'' [] (w0 @ ''```json'' @ w1 @ body @ w2 @ ''```'' @ w3)
      = (w0 @ w1) @ ?x @ w2 @ ''```'' @ w3" by simp
  have "py_replace ''```'' [] ((w0 @ w1) @ ?x @ w2 @ ''```'' @ w3)
      = (w0 @ w1) @ py_replace ''```'' [] (?x @ w2 @ ''```'' @ w3)"
    using replace_skip [of "CHR ''`''" "w0 @ w1" "''``''"] f0 f1 by simp
  also have "\<dots> = (w0 @ w1) @ py_replace ''```'' [] ?x @ (w2 @ w3)"
    using fence_tail [of w2 w3 ?x] f2 f3 by simp
  finally have "clean_response (w0 @ ''```json'' @ w1 @ body @ w2 @ ''```'' @ w3)
      = py_strip ((w0 @ w1) @ py_replace ''```'' [] ?x @ (w2 @ w3))"
    unfolding clean_response_def r1 by simp
  also have "\<dots> = py_strip (py_replace ''```'' [] ?x)"
    using strip_pad [of "w0 @ w1" "w2 @ w3"] assms by simp
  finally show ?thesis by (simp add: clean_response_def)
qed

text \<open>A marker between two texts without backquotes is removed wherever it stands.\<close>

lemma clean_inner_json_marker:
  assumes "CHR ''`'' \<notin> set a" "CHR ''`'' \<notin> set b"
  shows "clean_response (a @ ''```json'' @ b) = py_strip (a @ b)"
proof -
  have "py_replace ''```json'' [] (a @ ''```json'' @ b) = a @ py_replace ''```json'' [] b"
    using replace_skip [of "CHR ''`''" a "''``json''" "''```json'' @ b"]
      replace_prefix [of "''```json''" b] assms(1) by simp
  also have "\<dots> = a @ b"
    using replace_none [of "CHR ''`''" b "''``json''"] assms(2) by simp
  finally show ?thesis
    using replace_none [of "CHR ''`''" "a @ b" "''``''"] assms
    by (simp add: clean_response_def)
qed

lemma clean_inner_plain_marker:
  assumes "CHR ''`'' \<notin> set a" "CHR ''`'' \<notin> set b" "\<not> prefix ''json'' b"
  shows "clean_response (a @ ''```'' @ b) = py_strip (a @ b)"
proof -
  have nb: "py_replace ''```json'' [] b = b"
    using replace_none [of "CHR ''`''" b "''``json''"] assms(2) by simp
  have "py_replace ''```json'' [] (''```'' @ b) = ''```'' @ b"
    using assms(2,3) nb by (cases b) (auto simp: replace_none)
  then have "py_replace ''```json'' [] (a @ ''```'' @ b) = a @ ''```'' @ b"
    using replace_skip [of "CHR ''`''" a "''``json''" "''```'' @ b"] assms(1) by simp
  moreover have "py_replace ''```'' [] (a @ ''```'' @ b) = a @ b"
    using replace_skip [of "CHR ''`''" a "''``''" "''```'' @ b"]
      replace_prefix [of "''```''" b] replace_none [of "CHR ''`''" b "''``''"] assms(1,2)
    by simp
  ultimately show ?thesis by (simp add: clean_response_def)
qed

text \<open>
  C3 (as amended): fence-stripping removes the markers \<^verbatim>\<open>```json\<close> and \<^verbatim>\<open>```\<close> wherever
  they stand in the response text, not only at its start and end, and then the
  surrounding whitespace; a response wrapped in \<^verbatim>\<open>```json\<close> and \<^verbatim>\<open>```\<close>, with any
  whitespace around the fences, is cleaned to the same text and so parsed to the same
  result as the response without the fences.
\<close>

theorem fences_removed_everywhere_and_wrapping_ignored:
  "(CHR ''`'' \<notin> set a \<and> CHR ''`'' \<notin> set b \<longrightarrow>
      clean_response (a @ ''```json'' @ b) = py_strip (a @ b)
      \<and> (\<not> prefix ''json'' b \<longrightarrow> clean_response (a @ ''```'' @ b) = py_strip (a @ b)))
   \<and> (list_all py_isspace w0 \<and> list_all py_isspace w1
       \<and> list_all py_isspace w2 \<and> list_all py_isspace w3 \<longrightarrow>
      clean_response (w0 @ ''```json'' @ w1 @ body @ w2 @ ''```'' @ w3) = clean_response body
      \<and> parse_selection loads key (w0 @ ''```json'' @ w1 @ body @ w2 @ ''```'' @ w3)
          = parse_selection loads key body)"
  using clean_inner_json_marker [of a b] clean_inner_plain_marker [of a b]
    clean_wrapped [of w0 w1 w2 w3 body]
  by (simp add: parse_selection_def)

theorem wrapped_response_witness:
  "list_all py_isspace [CHR 0x0A] \<and> list_all py_isspace []
   \<and> CHR ''`'' \<notin> set ''[1, '' \<and> CHR ''`'' \<notin> set ''2]'' \<and> \<not> prefix ''json'' ''2]''
   \<and> clean_response (''[1, '' @ ''```'' @ ''2]'') = ''[1, 2]''
   \<and> clean_response (''[1, '' @ ''```json'' @ ''2]'') = ''[1, 2]''
   \<and> clean_response ([] @ ''```json'' @ [CHR 0x0A] @ ''{\"relevant_files\": []}''
                        @ [CHR 0x0A] @ ''```'' @ [])
       = ''{\"relevant_files\": []}''
   \<and> parse_selection scenario_loads ''relevant_files''
        ([] @ ''```json'' @ [CHR 0x0A] @ ''{\"relevant_files\": [\"a.json\"]}''
            @ [CHR 0x0A] @ ''```'' @ [])
       = Inr (JArr [JStr ''a.json''])"
  using fences_removed_everywhere_and_wrapping_ignored
          [of "''[1, ''" "''2]''" "[]" "[CHR 0x0A]" "[CHR 0x0A]" "[]"
              "''{\"relevant_files\": []}''" scenario_loads "''relevant_files''"]
        fences_removed_everywhere_and_wrapping_ignored
          [of "''[1, ''" "''2]''" "[]" "[CHR 0x0A]" "[CHR 0x0A]" "[]"
              "''{\"relevant_files\": [\"a.json\"]}''" scenario_loads "''relevant_files''"]
  by (simp add: py_isspace_def py_strip_def clean_response_def parse_selection_def
      scenario_loads_def)

theorem inner_fence_is_removed:
  "clean_response ''{\"relevant_files\": [\"a```b.json\"]}'' = ''{\"relevant_files\": [\"ab.json\"]}''
   \<and> clean_response ''{\"relevant_files\": [\"a```b.json\"]}''
       \<noteq> ''{\"relevant_files\": [\"a```b.json\"]}''"
  by (simp add: clean_response_def py_strip_def py_isspace_def)

section \<open>The extractor and the gatherer on a typed corpus\<close>

lemma str_contains_sublist: "str_contains s a = sublist a s"
  by (induction s) (simp_all add: sublist_Cons_right)

lemma map_of_corpus_json:
  "map_of (corpus_json c) f = map_option (map descriptor_json) (map_of c f)"
  by (induction c) (auto simp: corpus_json_def)

lemma keys_corpus_json: "f \<in> set (map fst (corpus_json c)) \<longleftrightarrow> map_of c f \<noteq> None"
  by (induction c) (auto simp: corpus_json_def)

lemma table_strings_typed:
  "table_strings repr (map descriptor_json ts) =
     Inr (map (\<lambda>t. td_name t @ '' : '' @ td_description t) ts)"
  by (induction ts) (simp_all add: table_string_def descriptor_json_def py_str_def)

lemma tables_of_files_typed:
  "tables_of_files repr (corpus_json c) (map JStr fs) =
     Inr (concat (map (\<lambda>f. map (\<lambda>t. td_name t @ '' : '' @ td_description t) (tables_in c f)) fs))"
proof (induction fs)
  case Nil
  then show ?case by simp
next
  case (Cons f fs)
  show ?case
  proof (cases "map_of c f")
    case None
    then have "f \<notin> set (map fst (corpus_json c))" using keys_corpus_json [of f c] by simp
    then show ?thesis using Cons None by (simp add: corpus_contains_def tables_in_def)
  next
    case (Some ts)
    then have "f \<in> set (map fst (corpus_json c))" using keys_corpus_json [of f c] by simp
    then show ?thesis using Cons Some
      by (simp add: corpus_contains_def corpus_getitem_def tables_in_def map_of_corpus_json
          table_strings_typed)
  qed
qed

lemma any_contains_typed:
  "any_contains (JStr a) (map JStr rts) = Inr (list_ex (sublist a) rts)"
  by (induction rts) (simp_all add: str_contains_sublist)

lemma table_infos_typed:
  "table_infos (JArr (map JStr rts)) (map descriptor_json ts) =
     Inr (map descriptor_json (filter (\<lambda>t. list_ex (sublist (td_name t)) rts) ts))"
proof (induction ts)
  case Nil
  then show ?case by simp
next
  case (Cons t ts)
  have "table_info_entry (JArr (map JStr rts)) (descriptor_json t) =
      Inr (if list_ex (sublist (td_name t)) rts then Some (descriptor_json t) else None)"
    by (simp add: table_info_entry_def descriptor_json_def any_contains_typed)
  then show ?case using Cons by simp
qed

lemma infos_of_files_typed:
  "infos_of_files (JArr (map JStr rts)) (corpus_json c) (map JStr fs) =
     Inr (concat (map (\<lambda>f. map descriptor_json
            (filter (\<lambda>t. list_ex (sublist (td_name t)) rts) (tables_in c f))) fs))"
proof (induction fs)
  case Nil
  then show ?case by simp
next
  case (Cons f fs)
  show ?case
  proof (cases "map_of c f")
    case None
    then have "f \<notin> set (map fst (corpus_json c))" using keys_corpus_json [of f c] by simp
    then show ?thesis using Cons None by (simp add: corpus_contains_def tables_in_def)
  next
    case (Some ts)
    then have "f \<in> set (map fst (corpus_json c))" using keys_corpus_json [of f c] by simp
    then show ?thesis using Cons Some
      by (simp add: corpus_contains_def corpus_getitem_def tables_in_def map_of_corpus_json
          table_infos_typed)
  qed
qed

lemma get_tables_typed:
  "get_tables_from_files repr (JArr (map JStr fs)) (corpus_json c) =
     Inr (concat (map (\<lambda>f. map (\<lambda>t. td_name t @ '' : '' @ td_description t) (tables_in c f)) fs))"
  by (simp add: get_tables_from_files_def tables_of_files_typed)

lemma grab_typed:
  "grab_table_info (JArr (map JStr rts)) (JArr (map JStr fs)) (corpus_json c) =
     Inr (concat (map (\<lambda>f. map descriptor_json
            (filter (\<lambda>t. list_ex (sublist (td_name t)) rts) (tables_in c f))) fs))"
  by (simp add: grab_table_info_def infos_of_files_typed)

text \<open>
  The output of a selection is the blocks of its files one after the other, so the
  block of a file is there once for each of its occurrences.
\<close>

lemma mset_concat_blocks:
  "mset (concat (map b fs)) =
     mset (concat (map b (removeAll f fs))) + repeat_mset (count_list fs f) (mset (b f))"
  by (induction fs) simp_all

text \<open>
  C1: for every corpus, every list of selected files and every list of relevant-table
  strings, \<^verbatim>\<open>grab_table_info\<close> returns, in the order of the selection and then of the
  corpus, the descriptor with name, description and columns of exactly those tables of
  the selected files found in the corpus whose name is a substring of, or equal to, at
  least one relevant-table entry; a selected file that the corpus lacks gives nothing.
\<close>

theorem grab_table_info_matches_by_substring:
  "grab_table_info (JArr (map JStr rts)) (JArr (map JStr fs)) (corpus_json c) =
     Inr (concat (map (\<lambda>f. map descriptor_json
            (filter (\<lambda>t. list_ex (sublist (td_name t)) rts) (tables_in c f))) fs))"
  by (rule grab_typed)

text \<open>The entry \<^verbatim>\<open>orders_2024\<close> matches the table \<^verbatim>\<open>orders\<close>, and not \<^verbatim>\<open>customers\<close>.\<close>

theorem orders_2024_matches_orders:
  "grab_table_info (JArr [JStr ''orders_2024'']) (JArr [JStr ''a.json'', JStr ''b.json''])
     (corpus_json [(''a.json'', [customers, orders])]) = Inr [descriptor_json orders]
   \<and> descriptor_json orders = orders_table"
  using grab_table_info_matches_by_substring
          [of "[''orders_2024'']" "[''a.json'', ''b.json'']" "[(''a.json'', [customers, orders])]"]
  by (simp add: tables_in_def orders_def customers_def sublist_code descriptor_json_def
      orders_table_def)

text \<open>
  C4: for every corpus and every list of selected files, \<^verbatim>\<open>get_tables_from_files\<close>
  returns the string made of the name, \<^verbatim>\<open>" : "\<close> and the description of each table of
  each selected file found in the corpus, in the order of the selection and then of the
  corpus; a selected file that the corpus lacks gives nothing and raises nothing.
\<close>

theorem get_tables_from_files_in_selection_order:
  "get_tables_from_files repr (JArr (map JStr fs)) (corpus_json c) =
     Inr (concat (map (\<lambda>f. map (\<lambda>t. td_name t @ '' : '' @ td_description t) (tables_in c f)) fs))"
  by (rule get_tables_typed)

theorem get_tables_from_files_example:
  "get_tables_from_files (\<lambda>v. []) (JArr [JStr ''b.json'', JStr ''missing.json'', JStr ''a.json''])
     (corpus_json [(''a.json'', [customers, orders]), (''b.json'', [orders])])
   = Inr [''orders : sales orders'', ''customers : buyers'', ''orders : sales orders'']"
  using get_tables_from_files_in_selection_order
          [of "\<lambda>v. []" "[''b.json'', ''missing.json'', ''a.json'']"
              "[(''a.json'', [customers, orders]), (''b.json'', [orders])]"]
  by (simp add: tables_in_def orders_def customers_def)

text \<open>
  C10: neither function removes duplicates from the selection. The output for a
  selection is, as a multiset, the output for the selection without the file \<open>f\<close>
  together with as many copies of the output for \<open>f\<close> alone as \<open>f\<close> has occurrences in
  the selection; no call raises.
\<close>

theorem selected_file_counted_with_multiplicity:
  "(\<exists>out rest block.
      get_tables_from_files repr (JArr (map JStr fs)) (corpus_json c) = Inr out \<and>
      get_tables_from_files repr (JArr (map JStr (removeAll f fs))) (corpus_json c) = Inr rest \<and>
      get_tables_from_files repr (JArr [JStr f]) (corpus_json c) = Inr block \<and>
      mset out = mset rest + repeat_mset (count_list fs f) (mset block))
   \<and> (\<exists>out rest block.
      grab_table_info (JArr (map JStr rts)) (JArr (map JStr fs)) (corpus_json c) = Inr out \<and>
      grab_table_info (JArr (map JStr rts)) (JArr (map JStr (removeAll f fs))) (corpus_json c)
        = Inr rest \<and>
      grab_table_info (JArr (map JStr rts)) (JArr [JStr f]) (corpus_json c) = Inr block \<and>
      mset out = mset rest + repeat_mset (count_list fs f) (mset block))"
proof (intro conjI)
  let ?s = "\<lambda>f. map (\<lambda>t. td_name t @ '' : '' @ td_description t) (tables_in c f)"
  let ?d = "\<lambda>f. map descriptor_json
              (filter (\<lambda>t. list_ex (sublist (td_name t)) rts) (tables_in c f))"
  have one: "JArr [JStr f] = JArr (map JStr [f])" by simp
  have "get_tables_from_files repr (JArr [JStr f]) (corpus_json c) = Inr (?s f)"
    unfolding one get_tables_typed by simp
  then show "\<exists>out rest block.
      get_tables_from_files repr (JArr (map JStr fs)) (corpus_json c) = Inr out \<and>
      get_tables_from_files repr (JArr (map JStr (removeAll f fs))) (corpus_json c) = Inr rest \<and>
      get_tables_from_files repr (JArr [JStr f]) (corpus_json c) = Inr block \<and>
      mset out = mset rest + repeat_mset (count_list fs f) (mset block)"
    using get_tables_typed [of repr fs c] get_tables_typed [of repr "removeAll f fs" c]
      mset_concat_blocks [of ?s fs f] by blast
  have "grab_table_info (JArr (map JStr rts)) (JArr [JStr f]) (corpus_json c) = Inr (?d f)"
    unfolding one grab_typed by simp
  then show "\<exists>out rest block.
      grab_table_info (JArr (map JStr rts)) (JArr (map JStr fs)) (corpus_json c) = Inr out \<and>
      grab_table_info (JArr (map JStr rts)) (JArr (map JStr (removeAll f fs))) (corpus_json c)
        = Inr rest \<and>
      grab_table_info (JArr (map JStr rts)) (JArr [JStr f]) (corpus_json c) = Inr block \<and>
      mset out = mset rest + repeat_mset (count_list fs f) (mset block)"
    using grab_typed [of rts fs c] grab_typed [of rts "removeAll f fs" c]
      mset_concat_blocks [of ?d fs f] by blast
qed

text \<open>A file selected twice gives its strings and its descriptors twice.\<close>

theorem file_selected_twice:
  "get_tables_from_files (\<lambda>v. []) (JArr [JStr ''a.json'', JStr ''b.json'', JStr ''a.json''])
     (corpus_json [(''a.json'', [orders]), (''b.json'', [customers])])
   = Inr [''orders : sales orders'', ''customers : buyers'', ''orders : sales orders'']
   \<and> grab_table_info (JArr [JStr ''orders''])
       (JArr [JStr ''a.json'', JStr ''b.json'', JStr ''a.json''])
       (corpus_json [(''a.json'', [orders]), (''b.json'', [customers])])
   = Inr [orders_table, orders_table]
   \<and> count_list [''a.json'', ''b.json'', ''a.json''] ''a.json'' = 2"
  using selected_file_counted_with_multiplicity
          [of "\<lambda>v. []" "[''a.json'', ''b.json'', ''a.json'']"
              "[(''a.json'', [orders]), (''b.json'', [customers])]" "''a.json''" "[''orders'']"]
  by (simp add: get_tables_typed [of _ "[''a.json'', ''b.json'', ''a.json'']", simplified]
      grab_typed [of "[''orders'']" "[''a.json'', ''b.json'', ''a.json'']", simplified]
      tables_in_def orders_def customers_def sublist_code descriptor_json_def orders_table_def)

section \<open>Every loaded table carries its three fields\<close>

lemma getitem_field: "field table k = Some v \<Longrightarrow> py_getitem table k = Inr v"
  by (cases table) (simp_all add: field_def)

lemma table_entry_fields: "table_entry table = Inr (Some info) \<Longrightarrow> has_fields info"
  by (auto simp: table_entry_def and_then_def has_fields_def field_def
      split: sum.splits if_splits)

lemma load_tables_fields: "load_tables elements = Inr infos \<Longrightarrow> list_all has_fields infos"
proof (induction elements arbitrary: infos)
  case Nil
  then show ?case by simp
next
  case (Cons table rest)
  then show ?case
    by (auto simp: and_then_def table_entry_fields split: sum.splits option.splits)
qed

lemma file_tables_fields: "file_tables data = Inr infos \<Longrightarrow> list_all has_fields infos"
  by (cases data) (simp_all add: load_tables_fields)

lemma dict_set_complete:
  "complete_corpus file_structure \<Longrightarrow> list_all has_fields infos \<Longrightarrow>
   complete_corpus (dict_set file_structure k infos)"
  by (induction file_structure) (auto simp: complete_corpus_def)

lemma loader_complete:
  "complete_corpus file_structure \<Longrightarrow>
   get_table_clusters_from file_structure json_files = Inr data \<Longrightarrow> complete_corpus data"
proof (induction json_files arbitrary: file_structure)
  case Nil
  then show ?case by simp
next
  case (Cons entry rest)
  obtain json_file content where entry: "entry = (json_file, content)" by (cases entry)
  show ?case
  proof (cases content)
    case (Loaded loaded)
    with Cons.prems(2) entry obtain infos where infos: "file_tables loaded = Inr infos"
      and rest: "get_table_clusters_from (dict_set file_structure (basename json_file) infos) rest
                   = Inr data"
      by (cases "file_tables loaded") simp_all
    have "complete_corpus (dict_set file_structure (basename json_file) infos)"
      using Cons.prems(1) infos by (simp add: dict_set_complete file_tables_fields)
    then show ?thesis using Cons.IH rest by blast
  qed (use Cons.prems(2) entry in \<open>simp_all\<close>)
qed

lemma table_string_fields: "has_fields table \<Longrightarrow> \<exists>s. table_string repr table = Inr s"
  by (auto simp: has_fields_def table_string_def getitem_field)

lemma table_strings_fields:
  "list_all has_fields ts \<Longrightarrow> \<exists>strs. table_strings repr ts = Inr strs"
proof (induction ts)
  case Nil
  then show ?case by simp
next
  case (Cons t ts)
  then obtain s strs where "table_string repr t = Inr s" "table_strings repr ts = Inr strs"
    using table_string_fields [of t repr] by auto
  then show ?case by simp
qed

text \<open>After \<^verbatim>\<open>file_name in data\<close> has held, \<^verbatim>\<open>data[file_name]\<close> finds the tables.\<close>

lemma corpus_getitem_present:
  assumes "complete_corpus data" "corpus_contains data x = Inr True"
  shows "\<exists>ts. corpus_getitem data x = Inr ts \<and> list_all has_fields ts"
proof -
  from assms(2) obtain k where k: "x = JStr k" "k \<in> set (map fst data)"
    by (cases x) (auto simp: corpus_contains_def split: if_splits)
  then obtain ts where ts: "map_of data k = Some ts"
    by (metis map_of_eq_None_iff not_Some_eq set_map)
  then have "(k, ts) \<in> set data" by (rule map_of_SomeD)
  then have "list_all has_fields ts"
    using assms(1) by (auto simp: complete_corpus_def list_all_iff)
  then show ?thesis using k ts by (simp add: corpus_getitem_def)
qed

lemma corpus_contains_no_key_error: "corpus_contains data x \<noteq> Inl KeyError"
  by (simp add: corpus_contains_def)

lemma py_iter_no_key_error: "py_iter x \<noteq> Inl KeyError"
  by (cases x) simp_all

lemma py_contains_no_key_error: "py_contains x y \<noteq> Inl KeyError"
  by (cases y; cases x) simp_all

lemma any_contains_no_key_error: "any_contains x ys \<noteq> Inl KeyError"
proof (induction ys)
  case Nil
  then show ?case by simp
next
  case (Cons y ys)
  show ?case
    unfolding any_contains.simps
    by (rule and_then_no_key_error) (simp_all add: py_contains_no_key_error Cons)
qed

lemma tables_of_files_no_key_error:
  assumes "complete_corpus data"
  shows "tables_of_files repr data xs \<noteq> Inl KeyError"
proof (induction xs)
  case Nil
  then show ?case by simp
next
  case (Cons x xs)
  have step: "(if present then and_then (corpus_getitem data x) (table_strings repr) else Inr [])
      \<noteq> Inl KeyError" if cc: "corpus_contains data x = Inr present" for present
  proof (cases present)
    case True
    then obtain ts where "corpus_getitem data x = Inr ts" "list_all has_fields ts"
      using corpus_getitem_present [OF assms, of x] cc by auto
    then show ?thesis using True table_strings_fields [of ts repr] by auto
  qed simp
  show ?case
    unfolding tables_of_files.simps
    by (intro and_then_no_key_error corpus_contains_no_key_error step Cons) simp_all
qed

lemma table_info_entry_no_key_error:
  assumes "has_fields table"
  shows "table_info_entry rts table \<noteq> Inl KeyError"
proof -
  obtain n d c where f: "py_getitem table ''table_name'' = Inr n"
    "py_getitem table ''table_description'' = Inr d" "py_getitem table ''columns'' = Inr c"
    using assms by (auto simp: has_fields_def getitem_field)
  have "and_then (py_iter rts) (any_contains n) \<noteq> Inl KeyError"
    by (intro and_then_no_key_error py_iter_no_key_error any_contains_no_key_error)
  then show ?thesis
    unfolding table_info_entry_def f and_then_Inr
    by (rule and_then_no_key_error) (simp add: f)
qed

lemma table_infos_no_key_error:
  "list_all has_fields ts \<Longrightarrow> table_infos rts ts \<noteq> Inl KeyError"
proof (induction ts)
  case Nil
  then show ?case by simp
next
  case (Cons t ts)
  then have "table_info_entry rts t \<noteq> Inl KeyError" "table_infos rts ts \<noteq> Inl KeyError"
    by (simp_all add: table_info_entry_no_key_error)
  then show ?case
    unfolding table_infos.simps
    by (intro and_then_no_key_error) simp_all
qed

lemma infos_of_files_no_key_error:
  assumes "complete_corpus data"
  shows "infos_of_files rts data xs \<noteq> Inl KeyError"
proof (induction xs)
  case Nil
  then show ?case by simp
next
  case (Cons x xs)
  have step: "(if present then and_then (corpus_getitem data x) (table_infos rts) else Inr [])
      \<noteq> Inl KeyError" if cc: "corpus_contains data x = Inr present" for present
  proof (cases present)
    case True
    then obtain ts where "corpus_getitem data x = Inr ts" "list_all has_fields ts"
      using corpus_getitem_present [OF assms, of x] cc by auto
    then show ?thesis using True table_infos_no_key_error [of ts rts] by auto
  qed simp
  show ?case
    unfolding infos_of_files.simps
    by (intro and_then_no_key_error corpus_contains_no_key_error step Cons) simp_all
qed

text \<open>
  C9: every table of a corpus that \<^verbatim>\<open>get_table_clusters\<close> returns carries the fields
  \<^verbatim>\<open>table_name\<close>, \<^verbatim>\<open>table_description\<close> and \<^verbatim>\<open>columns\<close>, so on such a corpus, whatever
  the selection of files and of tables, neither \<^verbatim>\<open>get_tables_from_files\<close> nor
  \<^verbatim>\<open>grab_table_info\<close> raises \<^verbatim>\<open>KeyError\<close>.
\<close>

theorem loaded_corpus_has_no_missing_key:
  "get_table_clusters json_files = Inr data \<Longrightarrow>
     complete_corpus data
     \<and> get_tables_from_files repr selected data \<noteq> Inl KeyError
     \<and> grab_table_info wanted selected data \<noteq> Inl KeyError"
proof -
  assume "get_table_clusters json_files = Inr data"
  then have c: "complete_corpus data"
    using loader_complete [of "[]" json_files data]
    by (simp add: get_table_clusters_def complete_corpus_def)
  have "get_tables_from_files repr selected data \<noteq> Inl KeyError"
    unfolding get_tables_from_files_def
    by (intro and_then_no_key_error py_iter_no_key_error tables_of_files_no_key_error c)
  moreover have "grab_table_info wanted selected data \<noteq> Inl KeyError"
    unfolding grab_table_info_def
    by (intro and_then_no_key_error py_iter_no_key_error infos_of_files_no_key_error c)
  ultimately show ?thesis using c by simp
qed

text \<open>
  A file whose only table has nothing but its name: the loaded table has the three
  fields, and the two functions go through.
\<close>

theorem loaded_corpus_has_no_missing_key_witness:
  "get_table_clusters [(''prospr/a.json'', Loaded (JArr [JObj [(''table_name'', JStr ''t'')]]))]
     = Inr [(''a.json'', [JObj [(''table_name'', JStr ''t''), (''table_description'', JStr []),
                               (''columns'', JArr [])]])]
   \<and> complete_corpus
       [(''a.json'', [JObj [(''table_name'', JStr ''t''), (''table_description'', JStr []),
                            (''columns'', JArr [])]])]
   \<and> get_tables_from_files (\<lambda>v. []) (JArr [JStr ''a.json''])
       [(''a.json'', [JObj [(''table_name'', JStr ''t''), (''table_description'', JStr []),
                            (''columns'', JArr [])]])] \<noteq> Inl KeyError
   \<and> grab_table_info (JArr [JStr ''t'']) (JArr [JStr ''a.json''])
       [(''a.json'', [JObj [(''table_name'', JStr ''t''), (''table_description'', JStr []),
                            (''columns'', JArr [])]])] \<noteq> Inl KeyError"
proof -
  have loaded:
    "get_table_clusters [(''prospr/a.json'', Loaded (JArr [JObj [(''table_name'', JStr ''t'')]]))]
       = Inr [(''a.json'', [JObj [(''table_name'', JStr ''t''), (''table_description'', JStr []),
                                 (''columns'', JArr [])]])]"
    by (simp add: get_table_clusters_def table_entry_def basename_def)
  show ?thesis
    using loaded
      loaded_corpus_has_no_missing_key [OF loaded, of "\<lambda>v. []" "JArr [JStr ''a.json'']" "JArr [JStr ''t'']"]
    by simp
qed

section \<open>Properties of the orchestrator\<close>

lemma parse_selection_failure:
  "selection_failure (loads (clean_response response_text)) key = Some e \<Longrightarrow>
   parse_selection loads key response_text = Inl e"
  by (cases "loads (clean_response response_text)";
      cases "the (loads (clean_response response_text))")
     (auto simp: selection_failure_def parse_selection_def field_def split: if_splits)

text \<open>What a run that returns a result has gone through, stage by stage.\<close>

lemma run_success:
  assumes "run_full_process json_files loads repr openai api_key user_prompt = (Inr b, sent)"
  shows "get_table_clusters json_files = Inr (all_data b)"
    and "file_names b = map fst (all_data b)"
    and "get_relevant_files loads (create_openai_client openai api_key) (file_names b)
           user_prompt []
          = (Inr (relevant_files b), [RelevantFilesRequest (file_names b) user_prompt])"
    and "get_tables_from_files repr (relevant_files b) (all_data b) = Inr (tables b)"
    and "pick_relevant_tables loads (create_openai_client openai api_key) (tables b) user_prompt
           [RelevantFilesRequest (file_names b) user_prompt]
          = (Inr (relevant_tables b),
             [RelevantFilesRequest (file_names b) user_prompt,
              RelevantTablesRequest (tables b) user_prompt])"
    and "grab_table_info (relevant_tables b) (relevant_files b) (all_data b)
          = Inr (columns_info b)"
    and "generate_sql (create_openai_client openai api_key) (relevant_tables b) user_prompt
           (columns_info b)
           [RelevantFilesRequest (file_names b) user_prompt,
            RelevantTablesRequest (tables b) user_prompt]
          = (Inr (final_sql_query b), sent)"
    and "sent = [RelevantFilesRequest (file_names b) user_prompt,
                 RelevantTablesRequest (tables b) user_prompt,
                 GenerateSqlRequest (relevant_tables b) user_prompt (columns_info b)]"
  using assms
  by (auto simp: run_full_process_def Let_def get_relevant_files_def pick_relevant_tables_def
      generate_sql_def chat_def split: sum.splits prod.splits)

lemma scenario_run:
  "run_full_process scenario_files scenario_loads repr (\<lambda>key. scenario_client) api_key user_prompt =
     (Inr \<lparr>all_data = [(''a.json'', [orders_table])],
           file_names = [''a.json''],
           relevant_files = JArr [JStr ''a.json''],
           tables = [''orders : sales orders''],
           relevant_tables = JArr [JStr ''orders''],
           columns_info = [orders_table],
           final_sql_query = ''SELECT * FROM orders;''\<rparr>,
      [RelevantFilesRequest [''a.json''] user_prompt,
       RelevantTablesRequest [''orders : sales orders''] user_prompt,
       GenerateSqlRequest (JArr [JStr ''orders'']) user_prompt [orders_table]])"
  by (simp add: run_full_process_def Let_def get_table_clusters_def scenario_files_def
      orders_table_def table_entry_def basename_def create_openai_client_def
      get_relevant_files_def pick_relevant_tables_def generate_sql_def chat_def
      scenario_client_def scenario_loads_def parse_selection_def clean_response_def
      py_strip_def py_isspace_def get_tables_from_files_def corpus_contains_def
      corpus_getitem_def table_string_def py_str_def grab_table_info_def table_info_entry_def)

lemma run_file_selector_fails:
  assumes "get_table_clusters json_files = Inr data"
    and "create_openai_client openai api_key [] (RelevantFilesRequest (map fst data) user_prompt)
           = Inr response_text"
    and "selection_failure (loads (clean_response response_text)) ''relevant_files'' = Some e"
  shows "run_full_process json_files loads repr openai api_key user_prompt
           = (Inl e, [RelevantFilesRequest (map fst data) user_prompt])"
  using assms parse_selection_failure [of loads response_text "''relevant_files''" e]
  by (simp add: run_full_process_def Let_def get_relevant_files_def chat_def)

lemma run_table_selector_fails:
  assumes "get_table_clusters json_files = Inr data"
    and "get_relevant_files loads (create_openai_client openai api_key) (map fst data)
           user_prompt [] = (Inr files, sent)"
    and "get_tables_from_files repr files data = Inr strs"
    and "create_openai_client openai api_key sent (RelevantTablesRequest strs user_prompt)
           = Inr response_text"
    and "selection_failure (loads (clean_response response_text)) ''relevant_tables'' = Some e"
  shows "run_full_process json_files loads repr openai api_key user_prompt
           = (Inl e, [RelevantFilesRequest (map fst data) user_prompt,
                      RelevantTablesRequest strs user_prompt])"
proof -
  have "sent = [RelevantFilesRequest (map fst data) user_prompt]"
    using assms(2) by (auto simp: get_relevant_files_def chat_def)
  then show ?thesis
    using assms parse_selection_failure [of loads response_text "''relevant_tables''" e]
    by (simp add: run_full_process_def Let_def pick_relevant_tables_def chat_def)
qed

text \<open>
  C6: the result of a run that completes holds every intermediate artifact: the corpus
  that the loader returned, its file names, the relevant files of the file selector,
  the table strings extracted for them, the relevant tables of the table selector, the
  column info gathered for them and the text of the SQL stage; the run has made the
  three requests, in this order. In the end-to-end scenario the result holds the SQL
  text \<^verbatim>\<open>SELECT * FROM orders;\<close> and a column info of one entry, the table \<^verbatim>\<open>orders\<close>
  as the file has it.
\<close>

theorem result_holds_every_artifact:
  "(run_full_process json_files loads repr openai api_key user_prompt = (Inr b, sent) \<longrightarrow>
      get_table_clusters json_files = Inr (all_data b)
      \<and> file_names b = map fst (all_data b)
      \<and> get_relevant_files loads (create_openai_client openai api_key) (file_names b)
          user_prompt []
         = (Inr (relevant_files b), [RelevantFilesRequest (file_names b) user_prompt])
      \<and> get_tables_from_files repr (relevant_files b) (all_data b) = Inr (tables b)
      \<and> pick_relevant_tables loads (create_openai_client openai api_key) (tables b) user_prompt
          [RelevantFilesRequest (file_names b) user_prompt]
         = (Inr (relevant_tables b),
            [RelevantFilesRequest (file_names b) user_prompt,
             RelevantTablesRequest (tables b) user_prompt])
      \<and> grab_table_info (relevant_tables b) (relevant_files b) (all_data b)
         = Inr (columns_info b)
      \<and> generate_sql (create_openai_client openai api_key) (relevant_tables b) user_prompt
          (columns_info b)
          [RelevantFilesRequest (file_names b) user_prompt,
           RelevantTablesRequest (tables b) user_prompt]
         = (Inr (final_sql_query b), sent))
   \<and> run_full_process scenario_files scenario_loads repr (\<lambda>key. scenario_client) api_key
        user_prompt
      = (Inr \<lparr>all_data = [(''a.json'', [orders_table])],
              file_names = [''a.json''],
              relevant_files = JArr [JStr ''a.json''],
              tables = [''orders : sales orders''],
              relevant_tables = JArr [JStr ''orders''],
              columns_info = [orders_table],
              final_sql_query = ''SELECT * FROM orders;''\<rparr>,
         [RelevantFilesRequest [''a.json''] user_prompt,
          RelevantTablesRequest [''orders : sales orders''] user_prompt,
          GenerateSqlRequest (JArr [JStr ''orders'']) user_prompt [orders_table]])"
proof (intro conjI impI)
  assume run: "run_full_process json_files loads repr openai api_key user_prompt = (Inr b, sent)"
  note run_success [OF run]
  then show "get_table_clusters json_files = Inr (all_data b)"
    and "file_names b = map fst (all_data b)"
    and "get_relevant_files loads (create_openai_client openai api_key) (file_names b)
          user_prompt []
         = (Inr (relevant_files b), [RelevantFilesRequest (file_names b) user_prompt])"
    and "get_tables_from_files repr (relevant_files b) (all_data b) = Inr (tables b)"
    and "pick_relevant_tables loads (create_openai_client openai api_key) (tables b) user_prompt
          [RelevantFilesRequest (file_names b) user_prompt]
         = (Inr (relevant_tables b),
            [RelevantFilesRequest (file_names b) user_prompt,
             RelevantTablesRequest (tables b) user_prompt])"
    and "grab_table_info (relevant_tables b) (relevant_files b) (all_data b)
         = Inr (columns_info b)"
    and "generate_sql (create_openai_client openai api_key) (relevant_tables b) user_prompt
          (columns_info b)
          [RelevantFilesRequest (file_names b) user_prompt,
           RelevantTablesRequest (tables b) user_prompt]
         = (Inr (final_sql_query b), sent)"
    by blast+
qed (rule scenario_run)

theorem scenario_result_witness:
  "run_full_process scenario_files scenario_loads (\<lambda>v. []) (\<lambda>key. scenario_client) [] ''sales''
     = (Inr \<lparr>all_data = [(''a.json'', [orders_table])],
             file_names = [''a.json''],
             relevant_files = JArr [JStr ''a.json''],
             tables = [''orders : sales orders''],
             relevant_tables = JArr [JStr ''orders''],
             columns_info = [orders_table],
             final_sql_query = ''SELECT * FROM orders;''\<rparr>,
        [RelevantFilesRequest [''a.json''] ''sales'',
         RelevantTablesRequest [''orders : sales orders''] ''sales'',
         GenerateSqlRequest (JArr [JStr ''orders'']) ''sales'' [orders_table]])
   \<and> get_table_clusters scenario_files = Inr [(''a.json'', [orders_table])]
   \<and> get_tables_from_files (\<lambda>v. []) (JArr [JStr ''a.json'']) [(''a.json'', [orders_table])]
       = Inr [''orders : sales orders'']
   \<and> grab_table_info (JArr [JStr ''orders'']) (JArr [JStr ''a.json''])
       [(''a.json'', [orders_table])] = Inr [orders_table]"
  using result_holds_every_artifact
          [of scenario_files scenario_loads "\<lambda>v. []" "\<lambda>key. scenario_client" "[]" "''sales''"
              "\<lparr>all_data = [(''a.json'', [orders_table])],
                file_names = [''a.json''],
                relevant_files = JArr [JStr ''a.json''],
                tables = [''orders : sales orders''],
                relevant_tables = JArr [JStr ''orders''],
                columns_info = [orders_table],
                final_sql_query = ''SELECT * FROM orders;''\<rparr>"
              "[RelevantFilesRequest [''a.json''] ''sales'',
                RelevantTablesRequest [''orders : sales orders''] ''sales'',
                GenerateSqlRequest (JArr [JStr ''orders'']) ''sales'' [orders_table]]"]
  by simp

text \<open>
  C7 (as amended): in the file selector, a cleaned response that is not JSON fails with
  \<^verbatim>\<open>JSONDecodeError\<close>, a parsed JSON object without the key \<^verbatim>\<open>relevant_files\<close> fails with
  \<^verbatim>\<open>KeyError\<close>, and a parsed JSON value that is not an object fails with \<^verbatim>\<open>TypeError\<close>; the
  run returns that very error and no result, having made the one request and no other.
  Likewise for \<^verbatim>\<open>relevant_tables\<close> in the table selector, after two requests.
\<close>

theorem selector_failure_aborts_run:
  "(get_table_clusters json_files = Inr data
    \<and> create_openai_client openai api_key [] (RelevantFilesRequest (map fst data) user_prompt)
        = Inr response_text
    \<and> selection_failure (loads (clean_response response_text)) ''relevant_files'' = Some e
    \<longrightarrow> run_full_process json_files loads repr openai api_key user_prompt
          = (Inl e, [RelevantFilesRequest (map fst data) user_prompt]))
   \<and> (get_table_clusters json_files = Inr data
    \<and> get_relevant_files loads (create_openai_client openai api_key) (map fst data)
         user_prompt [] = (Inr files, sent)
    \<and> get_tables_from_files repr files data = Inr strs
    \<and> create_openai_client openai api_key sent (RelevantTablesRequest strs user_prompt)
        = Inr response_text
    \<and> selection_failure (loads (clean_response response_text)) ''relevant_tables'' = Some e
    \<longrightarrow> run_full_process json_files loads repr openai api_key user_prompt
          = (Inl e, [RelevantFilesRequest (map fst data) user_prompt,
                     RelevantTablesRequest strs user_prompt]))"
  using run_file_selector_fails [of json_files data openai api_key user_prompt response_text loads e repr]
    run_table_selector_fails [of json_files data loads openai api_key user_prompt files sent
      repr strs response_text e]
  by blast

text \<open>
  Three runs on the file of the scenario: the file selector gets a text that is not
  JSON; it gets an object without the key; the table selector gets an object without
  the key.
\<close>

theorem selector_failure_witness:
  "selection_failure (None :: json option) ''relevant_files'' = Some JSONDecodeError
   \<and> run_full_process scenario_files (\<lambda>s. None) (\<lambda>v. []) (\<lambda>key sent req. Inr ''no'') [] []
       = (Inl JSONDecodeError, [RelevantFilesRequest [''a.json''] []])
   \<and> selection_failure (Some (JObj [(''files'', JArr [])])) ''relevant_files'' = Some KeyError
   \<and> run_full_process scenario_files (\<lambda>s. Some (JObj [(''files'', JArr [])])) (\<lambda>v. [])
        (\<lambda>key sent req. Inr ''{}'') [] []
       = (Inl KeyError, [RelevantFilesRequest [''a.json''] []])
   \<and> run_full_process scenario_files
        (\<lambda>s. Some (JObj [(''relevant_files'', JArr [JStr ''a.json''])])) (\<lambda>v. [])
        (\<lambda>key sent req. Inr ''{}'') [] []
       = (Inl KeyError, [RelevantFilesRequest [''a.json''] [],
                         RelevantTablesRequest [''orders : sales orders''] []])"
proof -
  have loaded: "get_table_clusters scenario_files = Inr [(''a.json'', [orders_table])]"
    by (simp add: get_table_clusters_def scenario_files_def orders_table_def table_entry_def
        basename_def)
  have strs: "get_tables_from_files (\<lambda>v. []) (JArr [JStr ''a.json'']) [(''a.json'', [orders_table])]
      = Inr [''orders : sales orders'']"
    by (simp add: get_tables_from_files_def corpus_contains_def corpus_getitem_def
        table_string_def py_str_def orders_table_def)
  have empty: "clean_response ''{}'' = ''{}''" "clean_response ''no'' = ''no''"
    by (simp_all add: clean_response_def py_strip_def py_isspace_def)
  show ?thesis
    using selector_failure_aborts_run
            [of scenario_files "[(''a.json'', [orders_table])]" "\<lambda>key sent req. Inr ''no''" "[]" "[]"
                "''no''" "\<lambda>s. None" JSONDecodeError "\<lambda>v. []"]
          selector_failure_aborts_run
            [of scenario_files "[(''a.json'', [orders_table])]" "\<lambda>key sent req. Inr ''{}''" "[]" "[]"
                "''{}''" "\<lambda>s. Some (JObj [(''files'', JArr [])])" KeyError "\<lambda>v. []"]
          selector_failure_aborts_run
            [of scenario_files "[(''a.json'', [orders_table])]" "\<lambda>key sent req. Inr ''{}''" "[]" "[]"
                "''{}''" "\<lambda>s. Some (JObj [(''relevant_files'', JArr [JStr ''a.json''])])" KeyError
                "\<lambda>v. []" "JArr [JStr ''a.json'']" "[RelevantFilesRequest [''a.json''] []]"
                "[''orders : sales orders'']"]
          loaded strs empty
    by (simp add: selection_failure_def field_def create_openai_client_def
        get_relevant_files_def chat_def parse_selection_def)
qed

text \<open>A response that is a bare JSON list fails with \<^verbatim>\<open>TypeError\<close>, not with \<^verbatim>\<open>KeyError\<close>.\<close>

theorem bare_list_response_is_type_error:
  "run_full_process scenario_files (\<lambda>s. Some (JArr [JStr ''a.json''])) (\<lambda>v. [])
     (\<lambda>key sent req. Inr ''[\"a.json\"]'') [] []
     = (Inl TypeError, [RelevantFilesRequest [''a.json''] []])
   \<and> fst (run_full_process scenario_files (\<lambda>s. Some (JArr [JStr ''a.json''])) (\<lambda>v. [])
            (\<lambda>key sent req. Inr ''[\"a.json\"]'') [] []) \<noteq> Inl KeyError"
  by (simp add: run_full_process_def Let_def get_table_clusters_def scenario_files_def
      orders_table_def table_entry_def basename_def create_openai_client_def
      get_relevant_files_def chat_def parse_selection_def)

text \<open>
  C8: \<^verbatim>\<open>generate_sql\<close> returns the text of the response as the client gives it, with no
  parsing and no cleaning, and this text is the final SQL text of the result.
\<close>

theorem generate_sql_returns_raw_response:
  "(client sent (GenerateSqlRequest wanted user_prompt infos) = Inr response_text \<longrightarrow>
      generate_sql client wanted user_prompt infos sent
        = (Inr response_text, sent @ [GenerateSqlRequest wanted user_prompt infos]))
   \<and> (run_full_process json_files loads repr openai api_key user_prompt = (Inr b, done) \<longrightarrow>
      create_openai_client openai api_key
          [RelevantFilesRequest (file_names b) user_prompt,
           RelevantTablesRequest (tables b) user_prompt]
          (GenerateSqlRequest (relevant_tables b) user_prompt (columns_info b))
        = Inr (final_sql_query b))"
proof (intro conjI impI)
  assume "client sent (GenerateSqlRequest wanted user_prompt infos) = Inr response_text"
  then show "generate_sql client wanted user_prompt infos sent
      = (Inr response_text, sent @ [GenerateSqlRequest wanted user_prompt infos])"
    by (simp add: generate_sql_def chat_def)
next
  assume run: "run_full_process json_files loads repr openai api_key user_prompt = (Inr b, done)"
  show "create_openai_client openai api_key
          [RelevantFilesRequest (file_names b) user_prompt,
           RelevantTablesRequest (tables b) user_prompt]
          (GenerateSqlRequest (relevant_tables b) user_prompt (columns_info b))
        = Inr (final_sql_query b)"
    using run_success(7) [OF run] by (simp add: generate_sql_def chat_def)
qed

text \<open>
  A fenced response comes back with its fences, which cleaning would have removed; in
  the scenario the final SQL text is the answer of the client to the third request.
\<close>

theorem fenced_sql_stays_fenced:
  "generate_sql (\<lambda>sent req. Inr ''```sql SELECT 1; ```'') (JArr [JStr ''orders'']) ''q''
     [orders_table] []
     = (Inr ''```sql SELECT 1; ```'',
        [GenerateSqlRequest (JArr [JStr ''orders'']) ''q'' [orders_table]])
   \<and> clean_response ''```sql SELECT 1; ```'' = ''sql SELECT 1;''
   \<and> create_openai_client (\<lambda>key. scenario_client) []
        [RelevantFilesRequest [''a.json''] ''q'',
         RelevantTablesRequest [''orders : sales orders''] ''q'']
        (GenerateSqlRequest (JArr [JStr ''orders'']) ''q'' [orders_table])
       = Inr ''SELECT * FROM orders;''"
  using generate_sql_returns_raw_response
          [of "\<lambda>sent req. Inr ''```sql SELECT 1; ```''" "[]" "JArr [JStr ''orders'']" "''q''"
              "[orders_table]" "''```sql SELECT 1; ```''"
              scenario_files scenario_loads "\<lambda>v. []" "\<lambda>key. scenario_client" "[]"
              "\<lparr>all_data = [(''a.json'', [orders_table])],
                file_names = [''a.json''],
                relevant_files = JArr [JStr ''a.json''],
                tables = [''orders : sales orders''],
                relevant_tables = JArr [JStr ''orders''],
                columns_info = [orders_table],
                final_sql_query = ''SELECT * FROM orders;''\<rparr>"
              "[RelevantFilesRequest [''a.json''] ''q'',
                RelevantTablesRequest [''orders : sales orders''] ''q'',
                GenerateSqlRequest (JArr [JStr ''orders'']) ''q'' [orders_table]]"]
        scenario_run [of "\<lambda>v. []" "[]" "''q''"]
  by (simp add: clean_response_def py_strip_def py_isspace_def)

end
